theory Spec2Isabelle
  imports Complex_Main "HOL-Library.Word" "HOL-Library.Sublist"
begin

section \<open>Go values used by the client\<close>

text \<open>
  The package is a client of a REST service. Its request layer (api.go) is modelled
  here function by function. The Go standard library (net/url, net/http, encoding/json)
  and the transport behind the package variable \<open>httpCli\<close> are not part of the
  package: they are parameters of the model, collected in the record \<open>env\<close>.

  Go's \<open>error\<close> values are modelled by their construction: an opaque error carrying a
  message (\<open>fmt.Errorf\<close> without arguments, and every error the library or the
  transport produces), the error \<open>fmt.Errorf("HTTP Status %d: %q", code, text)\<close> with
  its two arguments, and the error \<open>fmt.Errorf("%v && %v", e1, e2)\<close> with its two
  arguments, each of which may be \<open>nil\<close>, and the error
  \<open>fmt.Errorf("no room with name %q was found", roomName)\<close> with its argument.
\<close>

datatype error =
    Errorf string
  | HTTPStatus int string
  | Both "error option" "error option"
  | NoRoomWithName string

text \<open>A run-time panic of the Go program.\<close>

datatype panic = IndexOutOfRange | SliceBoundsOutOfRange | NilDereference

subsection \<open>url.Values and http.Header: map[string][]string\<close>

text \<open>
  A Go map from keys to slices of strings, as an association list read through
  \<open>vget\<close>. \<open>vget m k\<close> is \<open>m[k]\<close> (the nil slice for an absent key),
  \<open>vset k xs m\<close> is \<open>m[k] = xs\<close> and \<open>vadd k v m\<close> is \<open>m.Add(k, v)\<close>, that is
  \<open>m[k] = append(m[k], v)\<close>.
\<close>

type_synonym "values" = "(string \<times> string list) list"

definition vget :: "values \<Rightarrow> string \<Rightarrow> string list" where
  "vget m k = (case map_of m k of None \<Rightarrow> [] | Some xs \<Rightarrow> xs)"

fun vset :: "string \<Rightarrow> string list \<Rightarrow> values \<Rightarrow> values" where
  "vset k xs [] = [(k, xs)]"
| "vset k xs ((k', ys) # m) = (if k' = k then (k, xs) # m else (k', ys) # vset k xs m)"

definition vadd :: "string \<Rightarrow> string \<Rightarrow> values \<Rightarrow> values" where
  "vadd k v m = vset k (vget m k @ [v]) m"

text \<open>
  The nested loop \<open>for k, vals := range uv { for _, v := range vals { params.Add(k, v) } }\<close>
  of getRequest and getRequestWithPaging.
\<close>

fun add_vals :: "string \<Rightarrow> string list \<Rightarrow> values \<Rightarrow> values" where
  "add_vals k [] params = params"
| "add_vals k (v # vals) params = add_vals k vals (vadd k v params)"

fun add_all :: "values \<Rightarrow> values \<Rightarrow> values" where
  "add_all [] params = params"
| "add_all ((k, vals) # uv) params = add_all uv (add_vals k vals params)"

subsection \<open>fmt.Sprintf("%d", n)\<close>

definition digit_char :: "nat \<Rightarrow> char" where
  "digit_char d = char_of (48 + d)"

fun digits :: "nat \<Rightarrow> string" where
  "digits n = (if n < 10 then [digit_char n] else digits (n div 10) @ [digit_char (n mod 10)])"

declare digits.simps [simp del]

definition Sprintf_d :: "int \<Rightarrow> string" where
  "Sprintf_d i = (if i < 0 then CHR ''-'' # digits (nat (- i)) else digits (nat i))"

subsection \<open>strings.Split\<close>

text \<open>
  \<open>strings.Split(s, sep)\<close> for a separator that is not empty (the package calls it with
  \<open>"; "\<close> only): the fields between the non-overlapping occurrences of \<open>sep\<close>, found
  from the left. \<open>split_from sep cur s\<close> has read \<open>cur\<close> of the current field.
\<close>

fun split_from :: "string \<Rightarrow> string \<Rightarrow> string \<Rightarrow> string list" where
  "split_from sep cur [] = [cur]"
| "split_from sep cur (x # xs) =
     (if take (length sep) (x # xs) = sep
      then cur # split_from sep [] (drop (length sep - 1) xs)
      else split_from sep (cur @ [x]) xs)"

definition Split :: "string \<Rightarrow> string \<Rightarrow> string list" where
  "Split s sep = split_from sep [] s"

section \<open>Requests, responses and the transport\<close>

record url =
  Location :: string
  Query :: "values"

record request =
  Method :: string
  URL :: url
  ReqHeader :: "values"
  ReqBody :: "string option"

text \<open>
  A response as the client reads it: \<open>Body\<close> is what \<open>ioutil.ReadAll(res.Body)\<close>
  returns, the bytes or a read error.
\<close>

record response =
  StatusCode :: int
  Status :: string
  Header :: "values"
  Body :: "error + string"

text \<open>
  The surroundings of the package. \<open>parseURL\<close> is the URL parsing of \<open>http.NewRequest\<close>
  together with \<open>req.URL.Query()\<close>: an error, or the URL with its query string parsed
  into values; assigning \<open>req.URL.RawQuery = params.Encode()\<close> is modelled as storing
  \<open>params\<close> in the URL. \<open>Do\<close> is the transport \<open>httpCli.Do\<close>, a deterministic machine
  over a state of type \<open>'st\<close>: it answers a request with a transport error or a response.
\<close>

record 'st env =
  parseURL :: "string \<Rightarrow> error + url"
  Do :: "request \<Rightarrow> 'st \<Rightarrow> (error + response) \<times> 'st"

text \<open>
  The world a call runs in: every call of the transport made so far, with its outcome,
  and the state of the transport.
\<close>

record 'st world =
  calls :: "(request \<times> (error + response)) list"
  server :: "'st"

definition httpCli_Do :: "'st env \<Rightarrow> request \<Rightarrow> 'st world \<Rightarrow> (error + response) \<times> 'st world" where
  "httpCli_Do env req w =
     (case Do env req (server w) of
        (out, st') \<Rightarrow> (out, \<lparr>calls = calls w @ [(req, out)], server = st'\<rparr>))"

definition NewRequest :: "'st env \<Rightarrow> string \<Rightarrow> string \<Rightarrow> string option \<Rightarrow> error + request" where
  "NewRequest env m u b =
     (case parseURL env u of
        Inl err \<Rightarrow> Inl err
      | Inr pu \<Rightarrow> Inr \<lparr>Method = m, URL = pu, ReqHeader = [], ReqBody = b\<rparr>)"

text \<open>
  Go's \<open>int\<close> on a 64-bit platform: a 64-bit word read as two's complement, so that
  \<open>max -= c.pageMax\<close> wraps around as the source's comment says.
\<close>

type_synonym goint = "64 word"

record client =
  token :: string
  pageMax :: goint

definition StatusOK :: int where "StatusOK = 200"
definition StatusNoContent :: int where "StatusNoContent = 204"

text \<open>The two headers every request gets (\<open>req.Header.Set\<close>, twice).\<close>

definition set_headers :: "client \<Rightarrow> request \<Rightarrow> request" where
  "set_headers c req =
     req\<lparr>ReqHeader :=
       vset ''Content-Type'' [''application/json; charset=utf-8'']
         (vset ''Authorization'' [''Bearer '' @ token c] (ReqHeader req))\<rparr>"

subsection \<open>request\<close>

text \<open>
  A Go result pair \<open>([]byte, error)\<close>: the bytes (\<open>None\<close> for \<open>nil\<close>) and the
  error (\<open>None\<close> for \<open>nil\<close>).
\<close>

definition request :: "'st env \<Rightarrow> client \<Rightarrow> request \<Rightarrow> 'st world
    \<Rightarrow> (string option \<times> error option) \<times> 'st world" where
  "request env c req0 w =
     (case httpCli_Do env (set_headers c req0) w of
        (Inl err, w') \<Rightarrow> ((None, Some err), w')
      | (Inr res, w') \<Rightarrow>
          (case Body res of
             Inl err \<Rightarrow> ((None, Some err), w')
           | Inr bs \<Rightarrow>
               if StatusCode res \<noteq> StatusOK \<and> StatusCode res \<noteq> StatusNoContent
               then ((None, Some (HTTPStatus (StatusCode res) bs)), w')
               else ((Some bs, None), w')))"

definition getRequest :: "'st env \<Rightarrow> client \<Rightarrow> string \<Rightarrow> values \<Rightarrow> 'st world
    \<Rightarrow> (string option \<times> error option) \<times> 'st world" where
  "getRequest env c u uv w =
     (case NewRequest env ''GET'' u None of
        Inl err \<Rightarrow> ((None, Some err), w)
      | Inr req \<Rightarrow>
          request env c (req\<lparr>URL := (URL req)\<lparr>Query := add_all uv (Query (URL req))\<rparr>\<rparr>) w)"

definition postRequest :: "'st env \<Rightarrow> client \<Rightarrow> string \<Rightarrow> string \<Rightarrow> 'st world
    \<Rightarrow> (string option \<times> error option) \<times> 'st world" where
  "postRequest env c u b w =
     (case NewRequest env ''POST'' u (Some b) of
        Inl err \<Rightarrow> ((None, Some err), w)
      | Inr req \<Rightarrow> request env c req w)"

definition putRequest :: "'st env \<Rightarrow> client \<Rightarrow> string \<Rightarrow> string \<Rightarrow> 'st world
    \<Rightarrow> (string option \<times> error option) \<times> 'st world" where
  "putRequest env c u b w =
     (case NewRequest env ''PUT'' u (Some b) of
        Inl err \<Rightarrow> ((None, Some err), w)
      | Inr req \<Rightarrow> request env c req w)"

definition deleteRequest :: "'st env \<Rightarrow> client \<Rightarrow> string \<Rightarrow> 'st world
    \<Rightarrow> (string option \<times> error option) \<times> 'st world" where
  "deleteRequest env c u w =
     (case NewRequest env ''DELETE'' u None of
        Inl err \<Rightarrow> ((None, Some err), w)
      | Inr req \<Rightarrow> request env c req w)"

subsection \<open>getRequestWithPaging\<close>

definition rel_next :: string where
  "rel_next = ''rel='' @ [char_of (34::nat)] @ ''next'' @ [char_of (34::nat)]"

text \<open>
  The scan of the response headers (the labelled loop \<open>headers\<close>): only the key
  \<open>Link\<close> is looked at, and of its values only the first, after which the scan
  breaks. The value is split at \<open>"; "\<close>; \<open>spl[1]\<close> panics when the split has fewer
  than two parts, and the slice \<open>spl[0][1 : len(spl[0])-1]\<close> panics when \<open>spl[0]\<close>
  has fewer than two bytes. The result is the new \<open>uri\<close> when \<open>found\<close> is set.
\<close>

definition link_scan :: "values \<Rightarrow> panic + string option" where
  "link_scan hdr =
     (case vget hdr ''Link'' of
        [] \<Rightarrow> Inr None
      | l # _ \<Rightarrow>
          (let spl = Split l ''; '' in
           if length spl < 2 then Inl IndexOutOfRange
           else if spl ! 1 = rel_next
             then (if length (spl ! 0) < 2 then Inl SliceBoundsOutOfRange
                   else Inr (Some (butlast (tl (spl ! 0)))))
             else Inr None))"

text \<open>
  The page-size parameter and the caller's parameters of one iteration (the lines from
  \<open>params := req.URL.Query()\<close> to the assignment of \<open>params["max"]\<close>).
\<close>

definition paging_params :: "client \<Rightarrow> values \<Rightarrow> values \<Rightarrow> bool \<Rightarrow> goint \<Rightarrow> values" where
  "paging_params c q uv all mx =
     (let params = add_all uv q in
      if all \<or> pageMax c <s mx
      then vset ''max'' [Sprintf_d (sint (pageMax c))] params
      else vset ''max'' [Sprintf_d (sint mx)] params)"

text \<open>
  One iteration of the loop: it returns from the function (with a panic, or with the
  pages and the error), or goes on with a new \<open>uri\<close>, \<open>max\<close> and \<open>ret\<close>.
\<close>

datatype 'st step =
    Return "panic + (string list \<times> error option)" "'st world"
  | Continue string goint "string list" "'st world"

definition paging_body :: "'st env \<Rightarrow> client \<Rightarrow> values \<Rightarrow> bool \<Rightarrow> string \<Rightarrow> goint
    \<Rightarrow> string list \<Rightarrow> 'st world \<Rightarrow> 'st step" where
  "paging_body env c uv all uri mx ret w =
     (case NewRequest env ''GET'' uri None of
        Inl err \<Rightarrow> Return (Inr (ret, Some err)) w
      | Inr req0 \<Rightarrow>
          (let params = paging_params c (Query (URL req0)) uv all mx;
               mx' = mx - pageMax c;
               req = set_headers c (req0\<lparr>URL := (URL req0)\<lparr>Query := params\<rparr>\<rparr>)
           in case httpCli_Do env req w of
                (Inl err, w') \<Rightarrow> Return (Inr (ret, Some err)) w'
              | (Inr res, w') \<Rightarrow>
                  (case Body res of
                     Inl err \<Rightarrow> Return (Inr (ret, Some err)) w'
                   | Inr b \<Rightarrow>
                       if StatusCode res \<noteq> StatusOK \<and> StatusCode res \<noteq> StatusNoContent
                       then Return (Inr (ret, Some (HTTPStatus (StatusCode res) (Status res)))) w'
                       else (case link_scan (Header res) of
                               Inl p \<Rightarrow> Return (Inl p) w'
                             | Inr None \<Rightarrow> Return (Inr (ret @ [b], None)) w'
                             | Inr (Some u) \<Rightarrow> Continue u mx' (ret @ [b]) w'))))"

text \<open>
  The loop \<open>for all || max > 0\<close>. It need not end (an unbounded fetch from a server
  that always names a next page), so it is a partial function: \<open>None\<close> is a run that
  never returns.
\<close>

partial_function (option) paging_loop :: "'st env \<Rightarrow> client \<Rightarrow> values \<Rightarrow> bool \<Rightarrow> string
    \<Rightarrow> goint \<Rightarrow> string list \<Rightarrow> 'st world
    \<Rightarrow> ((panic + (string list \<times> error option)) \<times> 'st world) option" where
  "paging_loop env c uv all uri mx ret w =
     (if all \<or> 0 <s mx
      then (case paging_body env c uv all uri mx ret w of
              Return r w' \<Rightarrow> Some (r, w')
            | Continue uri' mx' ret' w' \<Rightarrow> paging_loop env c uv all uri' mx' ret' w')
      else Some (Inr (ret, None), w))"

declare paging_loop.simps [code]

definition getRequestWithPaging :: "'st env \<Rightarrow> client \<Rightarrow> string \<Rightarrow> values \<Rightarrow> goint
    \<Rightarrow> 'st world \<Rightarrow> ((panic + (string list \<times> error option)) \<times> 'st world) option" where
  "getRequestWithPaging env c uri uv mx w = paging_loop env c uv (mx = 0) uri mx [] w"

section \<open>The client\<close>

text \<open>
  A \<open>Client\<close> is a pointer to a \<open>client\<close> struct. The heap of client structs is a
  list, a pointer is an index into it, and an index outside the list is a pointer that
  cannot be dereferenced. \<open>New\<close> and \<open>SetMaxPerPage\<close> allocate; the accessors only
  read \<open>c.token\<close> and \<open>c.pageMax\<close>, so they take the struct itself.
\<close>

type_synonym heap = "client list"

definition New :: "string \<Rightarrow> heap \<Rightarrow> nat \<times> heap" where
  "New tok h = (length h, h @ [\<lparr>token = tok, pageMax = 50\<rparr>])"

definition SetMaxPerPage :: "nat \<Rightarrow> goint \<Rightarrow> heap \<Rightarrow> panic + (nat \<times> heap)" where
  "SetMaxPerPage c mx h =
     (if c < length h
      then Inr (length h, h @ [\<lparr>token = token (h ! c), pageMax = mx\<rparr>])
      else Inl NilDereference)"

section \<open>Resource accessors\<close>

text \<open>An instant of \<open>time.Time\<close>; \<open>0\<close> is the zero value \<open>time.Time{}\<close>.\<close>

type_synonym Time = nat

record Room =
  ID :: string
  Title :: string
  Type :: string
  IsLocked :: bool
  SIPAddress :: string
  TeamID :: string
  LastActivity :: Time
  CreatorID :: string
  Created :: Time

record RoomListParams =
  TeamID :: string
  Type :: string
  SortBy :: string

record Person =
  ID :: string
  Emails :: "string list"
  DisplayName :: string
  NickName :: string
  FirstName :: string
  LastName :: string
  Avatar :: string
  OrgId :: string
  Roles :: "string list"
  Licenses :: "string list"
  Created :: Time
  Timezone :: string
  LastActivity :: Time
  Status :: string
  InvitePending :: bool
  LoginEnabled :: bool
  Type :: string

record PeopleListParams =
  Email :: string
  DisplayName :: string
  ID :: string
  OrgID :: string

record Message =
  ID :: string
  RoomID :: string
  RoomType :: string
  PersonID :: string
  PersonEmail :: string
  Text :: string
  Markdown :: string
  Files :: "string list"
  HTML :: string
  Created :: Time

record NewMessage =
  RoomID :: string
  ToPersonID :: string
  ToPersonEmail :: string
  Text :: string
  Markdown :: string
  Files :: "string list"

record MessageListParams =
  MentionedPeople :: string
  Before :: Time
  BeforeMessageID :: string

text \<open>The field \<open>Data\<close> of a webhook is an untyped JSON object, kept as its text.\<close>

record Webhook =
  ID :: string
  Name :: string
  TargetURL :: string
  Resource :: string
  Event :: string
  Filter :: string
  Secret :: string
  OrgID :: string
  CreatedBy :: string
  AppID :: string
  OwnedBy :: string
  Status :: string
  ActorID :: string
  Data :: string

record NewWebhook =
  Name :: string
  TargetURL :: string
  Resource :: string
  Event :: string
  Filter :: string
  Secret :: string

text \<open>
  encoding/json and the formatting of \<open>time.Time\<close>, parameters of the model. An
  \<open>Encode\<close> is \<open>json.NewEncoder(b).Encode(v)\<close>: an error, or the bytes written to
  \<open>b\<close>. An \<open>Unmarshal\<close> is \<open>json.Unmarshal(data, &v)\<close> on a zero \<open>v\<close>: the value of
  \<open>v\<close> afterwards and the error; for a list envelope the value is its \<open>Items\<close>.
\<close>

record codec =
  EncodeRoom :: "Room \<Rightarrow> error + string"
  UnmarshalRoom :: "string \<Rightarrow> Room \<times> error option"
  UnmarshalRoomList :: "string \<Rightarrow> Room list \<times> error option"
  EncodePerson :: "Person \<Rightarrow> error + string"
  UnmarshalPerson :: "string \<Rightarrow> Person \<times> error option"
  UnmarshalPeople :: "string \<Rightarrow> Person list \<times> error option"
  EncodeNewMessage :: "NewMessage \<Rightarrow> error + string"
  UnmarshalMessage :: "string \<Rightarrow> Message \<times> error option"
  UnmarshalMessageList :: "string \<Rightarrow> Message list \<times> error option"
  EncodeNewWebhook :: "NewWebhook \<Rightarrow> error + string"
  EncodeWebhook :: "Webhook \<Rightarrow> error + string"
  UnmarshalWebhook :: "string \<Rightarrow> Webhook \<times> error option"
  UnmarshalWebhookList :: "string \<Rightarrow> Webhook list \<times> error option"
  FormatRFC3339 :: "Time \<Rightarrow> string"

text \<open>The bytes of a \<open>[]byte\<close> that may be \<open>nil\<close>.\<close>

definition bytes_of :: "string option \<Rightarrow> string" where
  "bytes_of resp = (case resp of None \<Rightarrow> [] | Some bs \<Rightarrow> bs)"

subsection \<open>Rooms\<close>

definition RoomsURL :: string where
  "RoomsURL = ''https://api.ciscospark.com/v1/rooms''"

definition GetRoom :: "'st env \<Rightarrow> codec \<Rightarrow> client \<Rightarrow> string \<Rightarrow> 'st world
    \<Rightarrow> (Room option \<times> error option) \<times> 'st world" where
  "GetRoom env js c roomId w =
     (if roomId = [] then ((None, Some (Errorf ''no room ID specified'')), w)
      else case getRequest env c (RoomsURL @ ''/'' @ roomId) [] w of
             ((resp, Some err), w') \<Rightarrow> ((None, Some err), w')
           | ((resp, None), w') \<Rightarrow>
               (case UnmarshalRoom js (bytes_of resp) of
                  (room, err) \<Rightarrow> ((Some room, err), w')))"

definition CreateRoom :: "'st env \<Rightarrow> codec \<Rightarrow> client \<Rightarrow> string \<Rightarrow> string \<Rightarrow> 'st world
    \<Rightarrow> (Room option \<times> error option) \<times> 'st world" where
  "CreateRoom env js c name teamID w =
     (if name = [] then ((None, Some (Errorf ''no room name specified'')), w)
      else let r = \<lparr>Room.ID = [], Title = name, Room.Type = [], IsLocked = False,
                     SIPAddress = [], Room.TeamID = teamID, Room.LastActivity = 0,
                     CreatorID = [], Room.Created = 0\<rparr>
           in case EncodeRoom js r of
                Inl err \<Rightarrow> ((None, Some err), w)
              | Inr b \<Rightarrow>
                  (case postRequest env c RoomsURL b w of
                     ((resp, Some err), w') \<Rightarrow> ((None, Some err), w')
                   | ((resp, None), w') \<Rightarrow>
                       (case UnmarshalRoom js (bytes_of resp) of
                          (rr, err) \<Rightarrow> ((Some rr, err), w'))))"

definition UpdateRoomName :: "'st env \<Rightarrow> codec \<Rightarrow> client \<Rightarrow> string \<Rightarrow> string \<Rightarrow> 'st world
    \<Rightarrow> (Room option \<times> error option) \<times> 'st world" where
  "UpdateRoomName env js c roomID newName w =
     (if roomID = [] then ((None, Some (Errorf ''no room ID specified'')), w)
      else if newName = [] then ((None, Some (Errorf ''no room name specified'')), w)
      else let r = \<lparr>Room.ID = [], Title = newName, Room.Type = [], IsLocked = False,
                     SIPAddress = [], Room.TeamID = [], Room.LastActivity = 0,
                     CreatorID = [], Room.Created = 0\<rparr>
           in case EncodeRoom js r of
                Inl err \<Rightarrow> ((None, Some err), w)
              | Inr b \<Rightarrow>
                  (case putRequest env c (RoomsURL @ ''/'' @ roomID) b w of
                     ((resp, Some err), w') \<Rightarrow> ((None, Some err), w')
                   | ((resp, None), w') \<Rightarrow>
                       (case UnmarshalRoom js (bytes_of resp) of
                          (rr, err) \<Rightarrow> ((Some rr, err), w'))))"

definition DeleteRoom :: "'st env \<Rightarrow> client \<Rightarrow> string \<Rightarrow> 'st world \<Rightarrow> error option \<times> 'st world" where
  "DeleteRoom env c roomID w =
     (if roomID = [] then (Some (Errorf ''no room ID specified''), w)
      else case deleteRequest env c (RoomsURL @ ''/'' @ roomID) w of
             ((resp, err), w') \<Rightarrow> (err, w'))"

definition RoomListParams_values :: "RoomListParams option \<Rightarrow> values" where
  "RoomListParams_values r =
     (case r of
        None \<Rightarrow> []
      | Some r \<Rightarrow>
          (let uv = [];
               uv = (if RoomListParams.TeamID r \<noteq> [] then vadd ''teamId'' (RoomListParams.TeamID r) uv else uv);
               uv = (if RoomListParams.Type r \<noteq> [] then vadd ''type'' (RoomListParams.Type r) uv else uv);
               uv = (if SortBy r \<noteq> [] then vadd ''sortBy'' (SortBy r) uv else uv)
           in uv))"

text \<open>
  The decoding loop of ListRooms over the pages; \<open>rooms\<close> is the slice built so far.
  After the loop ListRooms returns \<open>rooms, nil\<close>.
\<close>

fun ListRooms_decode :: "codec \<Rightarrow> error option \<Rightarrow> string list \<Rightarrow> Room list
    \<Rightarrow> Room list \<times> error option" where
  "ListRooms_decode js reqErr [] rooms = (rooms, None)"
| "ListRooms_decode js reqErr (r # resp) rooms =
     (case UnmarshalRoomList js r of
        (items, Some jsonErr) \<Rightarrow> (rooms, Some (Both reqErr (Some jsonErr)))
      | (items, None) \<Rightarrow> ListRooms_decode js reqErr resp (rooms @ items))"

definition ListRooms :: "'st env \<Rightarrow> codec \<Rightarrow> client \<Rightarrow> goint \<Rightarrow> RoomListParams option \<Rightarrow> 'st world
    \<Rightarrow> ((panic + (Room list \<times> error option)) \<times> 'st world) option" where
  "ListRooms env js c mx params w =
     (case getRequestWithPaging env c RoomsURL (RoomListParams_values params) mx w of
        None \<Rightarrow> None
      | Some (Inl p, w') \<Rightarrow> Some (Inl p, w')
      | Some (Inr (resp, reqErr), w') \<Rightarrow>
          if reqErr \<noteq> None \<and> length resp = 0 then Some (Inr ([], reqErr), w')
          else Some (Inr (ListRooms_decode js reqErr resp []), w'))"

text \<open>The search loop of GetRoomByName: the first room with the title, as found.\<close>

fun first_titled :: "string \<Rightarrow> Room list \<Rightarrow> Room option" where
  "first_titled roomName [] = None"
| "first_titled roomName (r # allRooms) =
     (if Title r = roomName then Some r else first_titled roomName allRooms)"

definition GetRoomByName :: "'st env \<Rightarrow> codec \<Rightarrow> client \<Rightarrow> string \<Rightarrow> 'st world
    \<Rightarrow> ((panic + (Room option \<times> error option)) \<times> 'st world) option" where
  "GetRoomByName env js c roomName w =
     (if roomName = [] then Some (Inr (None, Some (Errorf ''no room name specified'')), w)
      else case ListRooms env js c 0 None w of
             None \<Rightarrow> None
           | Some (Inl p, w') \<Rightarrow> Some (Inl p, w')
           | Some (Inr (allRooms, Some err), w') \<Rightarrow> Some (Inr (None, Some err), w')
           | Some (Inr (allRooms, None), w') \<Rightarrow>
               (case first_titled roomName allRooms of
                  Some r \<Rightarrow> Some (Inr (Some r, None), w')
                | None \<Rightarrow> Some (Inr (None, Some (NoRoomWithName roomName)), w')))"

subsection \<open>People\<close>

definition PeopleURL :: string where
  "PeopleURL = ''https://api.ciscospark.com/v1/people''"

definition GetPerson :: "'st env \<Rightarrow> codec \<Rightarrow> client \<Rightarrow> string \<Rightarrow> 'st world
    \<Rightarrow> (Person option \<times> error option) \<times> 'st world" where
  "GetPerson env js c personID w =
     (if personID = [] then ((None, Some (Errorf ''no person ID specified'')), w)
      else case getRequest env c (PeopleURL @ ''/'' @ personID) [] w of
             ((resp, Some err), w') \<Rightarrow> ((None, Some err), w')
           | ((resp, None), w') \<Rightarrow>
               (case UnmarshalPerson js (bytes_of resp) of
                  (person, Some err) \<Rightarrow> ((None, Some err), w')
                | (person, None) \<Rightarrow> ((Some person, None), w')))"

definition GetMyself :: "'st env \<Rightarrow> codec \<Rightarrow> client \<Rightarrow> 'st world
    \<Rightarrow> (Person option \<times> error option) \<times> 'st world" where
  "GetMyself env js c w = GetPerson env js c ''me'' w"

definition CreatePerson :: "'st env \<Rightarrow> codec \<Rightarrow> client \<Rightarrow> Person option \<Rightarrow> 'st world
    \<Rightarrow> (Person option \<times> error option) \<times> 'st world" where
  "CreatePerson env js c p w =
     (case p of
        None \<Rightarrow> ((None, Some (Errorf ''nil person'')), w)
      | Some p \<Rightarrow>
          (if length (Emails p) = 0 then ((None, Some (Errorf ''no email specified'')), w)
          else case EncodePerson js p of
                 Inl err \<Rightarrow> ((None, Some err), w)
               | Inr b \<Rightarrow>
                   (case postRequest env c PeopleURL b w of
                      ((resp, Some err), w') \<Rightarrow> ((None, Some err), w')
                    | ((resp, None), w') \<Rightarrow>
                        (case UnmarshalPerson js (bytes_of resp) of
                           (rp, err) \<Rightarrow> ((Some rp, err), w')))))"

definition UpdatePerson :: "'st env \<Rightarrow> codec \<Rightarrow> client \<Rightarrow> Person option \<Rightarrow> 'st world
    \<Rightarrow> (Person option \<times> error option) \<times> 'st world" where
  "UpdatePerson env js c p w =
     (case p of
        None \<Rightarrow> ((None, Some (Errorf ''nil person'')), w)
      | Some p \<Rightarrow>
          (if Person.ID p = [] then ((None, Some (Errorf ''no person ID specified'')), w)
          else case EncodePerson js p of
                 Inl err \<Rightarrow> ((None, Some err), w)
               | Inr b \<Rightarrow>
                   (case putRequest env c (PeopleURL @ ''/'' @ Person.ID p) b w of
                      ((resp, Some err), w') \<Rightarrow> ((None, Some err), w')
                    | ((resp, None), w') \<Rightarrow>
                        (case UnmarshalPerson js (bytes_of resp) of
                           (rp, err) \<Rightarrow> ((Some rp, err), w')))))"

definition DeletePerson :: "'st env \<Rightarrow> client \<Rightarrow> string \<Rightarrow> 'st world \<Rightarrow> error option \<times> 'st world" where
  "DeletePerson env c personID w =
     (if personID = [] then (Some (Errorf ''no person ID specified''), w)
      else case deleteRequest env c (PeopleURL @ ''/'' @ personID) w of
             ((resp, err), w') \<Rightarrow> (err, w'))"

definition PeopleListParams_values :: "PeopleListParams option \<Rightarrow> values" where
  "PeopleListParams_values p =
     (case p of
        None \<Rightarrow> []
      | Some p \<Rightarrow>
          (let uv = [];
               uv = (if Email p \<noteq> [] then vadd ''email'' (Email p) uv else uv);
               uv = (if PeopleListParams.DisplayName p \<noteq> []
                     then vadd ''displayName'' (PeopleListParams.DisplayName p) uv else uv);
               uv = (if PeopleListParams.ID p \<noteq> [] then vadd ''id'' (PeopleListParams.ID p) uv else uv);
               uv = (if PeopleListParams.OrgID p \<noteq> [] then vadd ''orgId'' (PeopleListParams.OrgID p) uv else uv)
           in uv))"

text \<open>The decoding loop of ListPeople; after the loop it returns \<open>people, nil\<close>.\<close>

fun ListPeople_decode :: "codec \<Rightarrow> error option \<Rightarrow> string list \<Rightarrow> Person list
    \<Rightarrow> Person list \<times> error option" where
  "ListPeople_decode js reqErr [] people = (people, None)"
| "ListPeople_decode js reqErr (r # resp) people =
     (case UnmarshalPeople js r of
        (items, Some jsonErr) \<Rightarrow> (people, Some (Both reqErr (Some jsonErr)))
      | (items, None) \<Rightarrow> ListPeople_decode js reqErr resp (people @ items))"

definition ListPeople :: "'st env \<Rightarrow> codec \<Rightarrow> client \<Rightarrow> goint \<Rightarrow> PeopleListParams option \<Rightarrow> 'st world
    \<Rightarrow> ((panic + (Person list \<times> error option)) \<times> 'st world) option" where
  "ListPeople env js c mx params w =
     (case getRequestWithPaging env c PeopleURL (PeopleListParams_values params) mx w of
        None \<Rightarrow> None
      | Some (Inl p, w') \<Rightarrow> Some (Inl p, w')
      | Some (Inr (resp, reqErr), w') \<Rightarrow>
          if reqErr \<noteq> None \<and> length resp = 0 then Some (Inr ([], reqErr), w')
          else Some (Inr (ListPeople_decode js reqErr resp []), w'))"

subsection \<open>Messages\<close>

definition MessagesURL :: string where
  "MessagesURL = ''https://api.ciscospark.com/v1/messages''"

definition GetMessage :: "'st env \<Rightarrow> codec \<Rightarrow> client \<Rightarrow> string \<Rightarrow> 'st world
    \<Rightarrow> (Message option \<times> error option) \<times> 'st world" where
  "GetMessage env js c messageID w =
     (if messageID = [] then ((None, Some (Errorf ''no message ID specified'')), w)
      else case getRequest env c (MessagesURL @ ''/'' @ messageID) [] w of
             ((resp, Some err), w') \<Rightarrow> ((None, Some err), w')
           | ((resp, None), w') \<Rightarrow>
               (case UnmarshalMessage js (bytes_of resp) of
                  (m, err) \<Rightarrow> ((Some m, err), w')))"

definition CreateMessage :: "'st env \<Rightarrow> codec \<Rightarrow> client \<Rightarrow> NewMessage option \<Rightarrow> 'st world
    \<Rightarrow> (Message option \<times> error option) \<times> 'st world" where
  "CreateMessage env js c m w =
     (case m of
        None \<Rightarrow> ((None, Some (Errorf ''nil message'')), w)
      | Some m \<Rightarrow>
          (if NewMessage.RoomID m = [] \<and> ToPersonEmail m = [] \<and> ToPersonID m = []
          then ((None, Some (Errorf ''message requires a room ID, person ID, or email to send to'')), w)
          else case EncodeNewMessage js m of
                 Inl err \<Rightarrow> ((None, Some err), w)
               | Inr b \<Rightarrow>
                   (case postRequest env c MessagesURL b w of
                      ((resp, Some err), w') \<Rightarrow> ((None, Some err), w')
                    | ((resp, None), w') \<Rightarrow>
                        (case UnmarshalMessage js (bytes_of resp) of
                           (rm, err) \<Rightarrow> ((Some rm, err), w')))))"

definition DeleteMessage :: "'st env \<Rightarrow> client \<Rightarrow> string \<Rightarrow> 'st world \<Rightarrow> error option \<times> 'st world" where
  "DeleteMessage env c messageID w =
     (if messageID = [] then (Some (Errorf ''no message ID specified''), w)
      else case deleteRequest env c (MessagesURL @ ''/'' @ messageID) w of
             ((resp, err), w') \<Rightarrow> (err, w'))"

definition MessageListParams_values :: "codec \<Rightarrow> MessageListParams option \<Rightarrow> string \<Rightarrow> values" where
  "MessageListParams_values js m roomID =
     (let uv = vadd ''roomId'' roomID [] in
      case m of
        None \<Rightarrow> uv
      | Some m \<Rightarrow>
          (let uv = (if MentionedPeople m \<noteq> [] then vadd ''mentionedPeople'' (MentionedPeople m) uv else uv);
               uv = (if Before m \<noteq> 0 then vadd ''before'' (FormatRFC3339 js (Before m)) uv else uv);
               uv = (if BeforeMessageID m \<noteq> [] then vadd ''beforeMessage'' (BeforeMessageID m) uv else uv)
           in uv))"

text \<open>
  The decoding loop of ListMessages. Its test after \<open>json.Unmarshal\<close> reads
  \<open>reqErr != nil\<close>; after the loop it returns \<open>messages, reqErr\<close>.
\<close>

fun ListMessages_decode :: "codec \<Rightarrow> error option \<Rightarrow> string list \<Rightarrow> Message list
    \<Rightarrow> Message list \<times> error option" where
  "ListMessages_decode js reqErr [] messages = (messages, reqErr)"
| "ListMessages_decode js reqErr (r # resp) messages =
     (case UnmarshalMessageList js r of
        (items, jsonErr) \<Rightarrow>
          if reqErr \<noteq> None then (messages, Some (Both reqErr jsonErr))
          else ListMessages_decode js reqErr resp (messages @ items))"

definition ListMessages :: "'st env \<Rightarrow> codec \<Rightarrow> client \<Rightarrow> goint \<Rightarrow> string \<Rightarrow> MessageListParams option
    \<Rightarrow> 'st world \<Rightarrow> ((panic + (Message list \<times> error option)) \<times> 'st world) option" where
  "ListMessages env js c mx roomID params w =
     (if roomID = [] then Some (Inr ([], Some (Errorf ''no room ID specified'')), w)
      else case getRequestWithPaging env c MessagesURL (MessageListParams_values js params roomID) mx w of
             None \<Rightarrow> None
           | Some (Inl p, w') \<Rightarrow> Some (Inl p, w')
           | Some (Inr (resp, reqErr), w') \<Rightarrow>
               if reqErr \<noteq> None \<and> length resp = 0 then Some (Inr ([], reqErr), w')
               else Some (Inr (ListMessages_decode js reqErr resp []), w'))"

subsection \<open>Webhooks\<close>

definition WebhooksURL :: string where
  "WebhooksURL = ''https://api.ciscospark.com/v1/webhooks''"

definition GetWebhook :: "'st env \<Rightarrow> codec \<Rightarrow> client \<Rightarrow> string \<Rightarrow> 'st world
    \<Rightarrow> (Webhook option \<times> error option) \<times> 'st world" where
  "GetWebhook env js c webhookID w =
     (if webhookID = [] then ((None, Some (Errorf ''no webhook ID specified'')), w)
      else case getRequest env c (WebhooksURL @ ''/'' @ webhookID) [] w of
             ((resp, Some err), w') \<Rightarrow> ((None, Some err), w')
           | ((resp, None), w') \<Rightarrow>
               (case UnmarshalWebhook js (bytes_of resp) of
                  (webhook, Some err) \<Rightarrow> ((None, Some err), w')
                | (webhook, None) \<Rightarrow> ((Some webhook, None), w')))"

definition CreateWebhook :: "'st env \<Rightarrow> codec \<Rightarrow> client \<Rightarrow> NewWebhook option \<Rightarrow> 'st world
    \<Rightarrow> (Webhook option \<times> error option) \<times> 'st world" where
  "CreateWebhook env js c wh w =
     (case wh of
        None \<Rightarrow> ((None, Some (Errorf ''nil webhook'')), w)
      | Some wh \<Rightarrow>
          (if NewWebhook.Name wh = [] then ((None, Some (Errorf ''no webhook name specified'')), w)
          else if NewWebhook.TargetURL wh = []
            then ((None, Some (Errorf ''no webhook target URL specified'')), w)
          else if NewWebhook.Resource wh = []
            then ((None, Some (Errorf ''no webhook resource specified'')), w)
          else if NewWebhook.Event wh = []
            then ((None, Some (Errorf ''no webhook event specified'')), w)
          else case EncodeNewWebhook js wh of
                 Inl err \<Rightarrow> ((None, Some err), w)
               | Inr b \<Rightarrow>
                   (case postRequest env c WebhooksURL b w of
                      ((resp, Some err), w') \<Rightarrow> ((None, Some err), w')
                    | ((resp, None), w') \<Rightarrow>
                        (case UnmarshalWebhook js (bytes_of resp) of
                           (rwh, err) \<Rightarrow> ((Some rwh, err), w')))))"

definition UpdateWebhook :: "'st env \<Rightarrow> codec \<Rightarrow> client \<Rightarrow> Webhook option \<Rightarrow> 'st world
    \<Rightarrow> (Webhook option \<times> error option) \<times> 'st world" where
  "UpdateWebhook env js c wh w =
     (case wh of
        None \<Rightarrow> ((None, Some (Errorf ''nil webhook'')), w)
      | Some wh \<Rightarrow>
          (if Webhook.ID wh = [] then ((None, Some (Errorf ''no webhook ID specified'')), w)
          else if Webhook.Name wh = [] then ((None, Some (Errorf ''no webhook name specified'')), w)
          else if Webhook.TargetURL wh = []
            then ((None, Some (Errorf ''no webhook target URL specified'')), w)
          else case EncodeWebhook js wh of
                 Inl err \<Rightarrow> ((None, Some err), w)
               | Inr b \<Rightarrow>
                   (case putRequest env c (WebhooksURL @ ''/'' @ Webhook.ID wh) b w of
                      ((resp, Some err), w') \<Rightarrow> ((None, Some err), w')
                    | ((resp, None), w') \<Rightarrow>
                        (case UnmarshalWebhook js (bytes_of resp) of
                           (rwh, err) \<Rightarrow> ((Some rwh, err), w')))))"

definition DeleteWebhook :: "'st env \<Rightarrow> client \<Rightarrow> string \<Rightarrow> 'st world \<Rightarrow> error option \<times> 'st world" where
  "DeleteWebhook env c hookID w =
     (if hookID = [] then (Some (Errorf ''no webhook ID specified''), w)
      else case deleteRequest env c (WebhooksURL @ ''/'' @ hookID) w of
             ((resp, err), w') \<Rightarrow> (err, w'))"

text \<open>The decoding loop of ListWebhooks; after the loop it returns \<open>webhooks, reqErr\<close>.\<close>

fun ListWebhooks_decode :: "codec \<Rightarrow> error option \<Rightarrow> string list \<Rightarrow> Webhook list
    \<Rightarrow> Webhook list \<times> error option" where
  "ListWebhooks_decode js reqErr [] webhooks = (webhooks, reqErr)"
| "ListWebhooks_decode js reqErr (r # resp) webhooks =
     (case UnmarshalWebhookList js r of
        (items, Some jsonErr) \<Rightarrow> (webhooks, Some (Both reqErr (Some jsonErr)))
      | (items, None) \<Rightarrow> ListWebhooks_decode js reqErr resp (webhooks @ items))"

definition ListWebhooks :: "'st env \<Rightarrow> codec \<Rightarrow> client \<Rightarrow> goint \<Rightarrow> 'st world
    \<Rightarrow> ((panic + (Webhook list \<times> error option)) \<times> 'st world) option" where
  "ListWebhooks env js c mx w =
     (case getRequestWithPaging env c WebhooksURL [] mx w of
        None \<Rightarrow> None
      | Some (Inl p, w') \<Rightarrow> Some (Inl p, w')
      | Some (Inr (resp, reqErr), w') \<Rightarrow>
          if reqErr \<noteq> None \<and> length resp = 0 then Some (Inr ([], reqErr), w')
          else Some (Inr (ListWebhooks_decode js reqErr resp []), w'))"

section \<open>Notions used to state the properties\<close>

text \<open>
  What one answer of the transport is to the paging loop. \<open>page_of\<close> is the page the
  loop appends for it: the body of a response that was read and has status 200 or 204.
  \<open>failure_of\<close> is the error the loop returns for it: the transport's error, the read
  error, or the status error. \<open>next_of\<close> is the result of the header scan of a page.
\<close>

definition ok_status :: "response \<Rightarrow> bool" where
  "ok_status res = (StatusCode res = StatusOK \<or> StatusCode res = StatusNoContent)"

definition page_of :: "error + response \<Rightarrow> string option" where
  "page_of out =
     (case out of
        Inl err \<Rightarrow> None
      | Inr res \<Rightarrow>
          (case Body res of
             Inl err \<Rightarrow> None
           | Inr b \<Rightarrow> if ok_status res then Some b else None))"

definition failure_of :: "error + response \<Rightarrow> error option" where
  "failure_of out =
     (case out of
        Inl err \<Rightarrow> Some err
      | Inr res \<Rightarrow>
          (case Body res of
             Inl err \<Rightarrow> Some err
           | Inr b \<Rightarrow> if ok_status res then None
                      else Some (HTTPStatus (StatusCode res) (response.Status res))))"

definition next_of :: "error + response \<Rightarrow> panic + string option" where
  "next_of out = (case out of Inl err \<Rightarrow> Inr None | Inr res \<Rightarrow> link_scan (Header res))"

text \<open>
  A page that names a next page whose URL parses; a page that names a next page whose
  URL does not parse; a page that names no next page; an answer that is a failure.
\<close>

definition next_page :: "'st env \<Rightarrow> error + response \<Rightarrow> bool" where
  "next_page env out =
     (page_of out \<noteq> None \<and>
      (case next_of out of Inr (Some u) \<Rightarrow> \<not> isl (parseURL env u) | _ \<Rightarrow> False))"

definition bad_next_page :: "'st env \<Rightarrow> error + response \<Rightarrow> bool" where
  "bad_next_page env out =
     (page_of out \<noteq> None \<and>
      (case next_of out of Inr (Some u) \<Rightarrow> isl (parseURL env u) | _ \<Rightarrow> False))"


definition failure :: "error + response \<Rightarrow> bool" where
  "failure out = (failure_of out \<noteq> None)"

text \<open>
  \<open>serves env ps st\<close>: from the state \<open>st\<close> on, the transport's next answers satisfy the
  predicates \<open>ps\<close>, one after the other, whatever the requests are.
\<close>

fun serves :: "'st env \<Rightarrow> ((error + response) \<Rightarrow> bool) list \<Rightarrow> 'st \<Rightarrow> bool" where
  "serves env [] st = True"
| "serves env (p # ps) st =
     (\<forall>req. p (fst (Do env req st)) \<and> serves env ps (snd (Do env req st)))"

text \<open>
  The transport calls a run made, between the world \<open>w\<close> before and the world \<open>w'\<close>
  after, and the pages among their answers.
\<close>

definition round_trips :: "'st world \<Rightarrow> 'st world \<Rightarrow> (request \<times> (error + response)) list" where
  "round_trips w w' = drop (length (calls w)) (calls w')"

definition pages_of :: "(request \<times> (error + response)) list \<Rightarrow> string list" where
  "pages_of rts = List.map_filter (\<lambda>rt. page_of (snd rt)) rts"

text \<open>The request of one iteration of the paging loop, for the parsed \<open>uri\<close>.\<close>

definition paging_request :: "client \<Rightarrow> url \<Rightarrow> values \<Rightarrow> bool \<Rightarrow> goint \<Rightarrow> request" where
  "paging_request c pu uv all mx =
     set_headers c
       \<lparr>Method = ''GET'', URL = pu\<lparr>Query := paging_params c (Query pu) uv all mx\<rparr>,
        ReqHeader = [], ReqBody = None\<rparr>"

text \<open>The world after one iteration of the paging loop.\<close>

definition step_world :: "'st step \<Rightarrow> 'st world" where
  "step_world s = (case s of Return r w \<Rightarrow> w | Continue uri mx ret w \<Rightarrow> w)"

section \<open>A scripted transport\<close>

text \<open>
  The mock transport of the package's tests: it counts its calls and answers the
  \<open>n\<close>-th call with the \<open>n\<close>-th entry of a script, and with a transport error
  when the script is used up. Its URL parser accepts what starts with \<open>http\<close>
  and returns the URL with no query parameters.
\<close>

definition mock_parse :: "string \<Rightarrow> error + url" where
  "mock_parse u =
     (if take 4 u = ''http'' then Inr \<lparr>Location = u, Query = []\<rparr>
      else Inl (Errorf ''missing protocol scheme''))"

definition mock_env :: "(error + response) list \<Rightarrow> nat env" where
  "mock_env script =
     \<lparr>parseURL = mock_parse,
      Do = (\<lambda>req n. (if n < length script then script ! n else Inl (Errorf ''mock error''), Suc n))\<rparr>"

definition link_to :: "string \<Rightarrow> string" where
  "link_to u = ''<'' @ u @ ''>; '' @ rel_next"

definition mock_page :: "string \<Rightarrow> string list \<Rightarrow> error + response" where
  "mock_page b links =
     Inr \<lparr>StatusCode = 200, response.Status = ''200 OK'', Header = [(''Link'', links)], Body = Inr b\<rparr>"

definition start :: "nat world" where
  "start = \<lparr>calls = [], server = 0\<rparr>"

section \<open>Properties of the paging loop\<close>

lemma paging_body_parse_error:
  "parseURL env uri = Inl err \<Longrightarrow>
   paging_body env c uv all uri mx ret w = Return (Inr (ret, Some err)) w"
  by (simp add: paging_body_def NewRequest_def)

lemma paging_body_sent:
  assumes "parseURL env uri = Inr pu"
    and "Do env (paging_request c pu uv all mx) (server w) = (out, st')"
  shows "paging_body env c uv all uri mx ret w =
     (let w' = \<lparr>calls = calls w @ [(paging_request c pu uv all mx, out)], server = st'\<rparr> in
      case failure_of out of
        Some err \<Rightarrow> Return (Inr (ret, Some err)) w'
      | None \<Rightarrow>
          (case next_of out of
             Inl p \<Rightarrow> Return (Inl p) w'
           | Inr None \<Rightarrow> Return (Inr (ret @ [the (page_of out)], None)) w'
           | Inr (Some u) \<Rightarrow> Continue u (mx - pageMax c) (ret @ [the (page_of out)]) w'))"
  using assms
  by (auto simp: paging_body_def NewRequest_def paging_request_def httpCli_Do_def Let_def
      failure_of_def next_of_def page_of_def ok_status_def split: sum.splits option.splits)

lemma page_no_failure: "page_of out = Some b \<Longrightarrow> failure_of out = None"
  by (auto simp: page_of_def failure_of_def split: sum.splits if_splits)

lemma failure_no_page: "failure_of out = Some err \<Longrightarrow> page_of out = None"
  by (auto simp: page_of_def failure_of_def split: sum.splits if_splits)

lemma pages_of_snoc:
  "pages_of (rts @ [rt]) = pages_of rts @ (case page_of (snd rt) of None \<Rightarrow> [] | Some b \<Rightarrow> [b])"
  by (simp add: pages_of_def List.map_filter_def split: option.splits)

lemma pages_of_append: "pages_of (xs @ ys) = pages_of xs @ pages_of ys"
  by (simp add: pages_of_def List.map_filter_def)

lemma pages_of_Nil: "pages_of [] = []"
  by (simp add: pages_of_def List.map_filter_def)

lemma pages_of_single:
  "pages_of [rt] = (case page_of (snd rt) of None \<Rightarrow> [] | Some b \<Rightarrow> [b])"
  by (simp add: pages_of_def List.map_filter_def split: option.splits)

text \<open>One iteration that gets a page naming a next page.\<close>

lemma loop_next:
  assumes cond: "all \<or> 0 <s mx"
    and parse: "parseURL env uri = Inr pu"
    and srv: "serves env (next_page env # ps) (server w)"
  shows "\<exists>u pu' rt b w'. parseURL env u = Inr pu' \<and> calls w' = calls w @ [rt] \<and>
           page_of (snd rt) = Some b \<and> next_page env (snd rt) \<and> serves env ps (server w') \<and>
           paging_loop env c uv all uri mx ret w =
             paging_loop env c uv all u (mx - pageMax c) (ret @ [b]) w'"
proof -
  define req where "req = paging_request c pu uv all mx"
  obtain out st' where d: "Do env req (server w) = (out, st')" by (cases "Do env req (server w)")
  from srv have np: "next_page env out" and rest: "serves env ps st'"
    using d by (auto dest: spec [where x = req])
  from np obtain b where b: "page_of out = Some b" by (auto simp: next_page_def)
  from np obtain u where u: "next_of out = Inr (Some u)" and "\<not> isl (parseURL env u)"
    by (auto simp: next_page_def split: sum.splits option.splits)
  then obtain pu' where pu': "parseURL env u = Inr pu'" by (cases "parseURL env u") auto
  define w' where "w' = \<lparr>calls = calls w @ [(req, out)], server = st'\<rparr>"
  have body: "paging_body env c uv all uri mx ret w = Continue u (mx - pageMax c) (ret @ [b]) w'"
    using paging_body_sent [OF parse d [unfolded req_def], of ret] b u page_no_failure [OF b]
    by (simp add: w'_def req_def)
  have "paging_loop env c uv all uri mx ret w =
        paging_loop env c uv all u (mx - pageMax c) (ret @ [b]) w'"
    by (subst paging_loop.simps) (use cond body in simp)
  moreover have "calls w' = calls w @ [(req, out)]" "server w' = st'" by (simp_all add: w'_def)
  ultimately show ?thesis using pu' b np rest by (intro exI [where x = "(req, out)"] exI) auto
qed

text \<open>One iteration whose answer ends the loop.\<close>

lemma loop_stop:
  assumes cond: "all \<or> 0 <s mx"
    and parse: "parseURL env uri = Inr pu"
    and d: "Do env (paging_request c pu uv all mx) (server w) = (out, st')"
    and stop: "failure_of out \<noteq> None \<or> (\<forall>u. next_of out \<noteq> Inr (Some u))"
  shows "paging_loop env c uv all uri mx ret w =
     Some (case failure_of out of
             Some err \<Rightarrow> Inr (ret, Some err)
           | None \<Rightarrow> (case next_of out of Inl p \<Rightarrow> Inl p | Inr x \<Rightarrow> Inr (ret @ [the (page_of out)], None)),
           \<lparr>calls = calls w @ [(paging_request c pu uv all mx, out)], server = st'\<rparr>)"
  apply (subst paging_loop.simps)
  using cond stop paging_body_sent [OF parse d, of ret]
  by (auto simp: Let_def split: option.splits sum.splits)

lemma loop_exit: "\<not> all \<Longrightarrow> \<not> 0 <s mx \<Longrightarrow> paging_loop env c uv all uri mx ret w = Some (Inr (ret, None), w)"
  by (subst paging_loop.simps) simp

lemma loop_parse_error:
  "all \<or> 0 <s mx \<Longrightarrow> parseURL env uri = Inl err \<Longrightarrow>
   paging_loop env c uv all uri mx ret w = Some (Inr (ret, Some err), w)"
  by (subst paging_loop.simps) (simp add: paging_body_parse_error)


text \<open>\<open>n\<close> iterations that each get a page naming a next page.\<close>

lemma loop_next_pages:
  assumes "serves env (replicate n (next_page env) @ ps) (server w)"
    and "parseURL env uri = Inr pu"
    and "all \<or> (\<forall>i<n. 0 <s mx - of_nat i * pageMax c)"
  shows "\<exists>u pu' rts w'. parseURL env u = Inr pu' \<and> calls w' = calls w @ rts \<and>
           length rts = n \<and> length (pages_of rts) = n \<and>
           (\<forall>rt\<in>set rts. next_page env (snd rt)) \<and> serves env ps (server w') \<and>
           paging_loop env c uv all uri mx ret w =
             paging_loop env c uv all u (mx - of_nat n * pageMax c) (ret @ pages_of rts) w'"
  using assms
proof (induction n arbitrary: uri pu mx ret w)
  case 0
  then show ?case
    by (intro exI [where x = uri] exI [where x = pu] exI [where x = "[]"] exI [where x = w])
      (simp add: pages_of_Nil)
next
  case (Suc n)
  from Suc.prems(3) have cond: "all \<or> 0 <s mx" by auto
  from Suc.prems(1) have srv: "serves env (next_page env # replicate n (next_page env) @ ps) (server w)"
    by simp
  from loop_next [OF cond Suc.prems(2) srv, where c = c and uv = uv and ret = ret]
  obtain u pu' rt b w1 where
    p1: "parseURL env u = Inr pu'" and c1: "calls w1 = calls w @ [rt]" and
    b: "page_of (snd rt) = Some b" and np: "next_page env (snd rt)" and
    s1: "serves env (replicate n (next_page env) @ ps) (server w1)" and
    l1: "paging_loop env c uv all uri mx ret w =
         paging_loop env c uv all u (mx - pageMax c) (ret @ [b]) w1"
    by blast
  have bud: "all \<or> (\<forall>i<n. 0 <s (mx - pageMax c) - of_nat i * pageMax c)"
  proof (cases all)
    case True
    then show ?thesis by simp
  next
    case False
    with Suc.prems(3) have h: "\<forall>i<Suc n. 0 <s mx - of_nat i * pageMax c" by simp
    have "0 <s (mx - pageMax c) - of_nat i * pageMax c" if "i < n" for i
    proof -
      have e: "mx - of_nat (Suc i) * pageMax c = (mx - pageMax c) - of_nat i * pageMax c"
        by (simp add: algebra_simps)
      from h that have "0 <s mx - of_nat (Suc i) * pageMax c" by blast
      then show ?thesis by (simp only: e)
    qed
    then show ?thesis by simp
  qed
  from Suc.IH [OF s1 p1 bud, where ret = "ret @ [b]"]
  obtain u2 pu2 rts w2 where
    p2: "parseURL env u2 = Inr pu2" and c2: "calls w2 = calls w1 @ rts" and
    n2: "length rts = n" and g2: "length (pages_of rts) = n" and
    a2: "\<forall>rt\<in>set rts. next_page env (snd rt)" and s2: "serves env ps (server w2)" and
    l2: "paging_loop env c uv all u (mx - pageMax c) (ret @ [b]) w1 =
         paging_loop env c uv all u2 (mx - pageMax c - of_nat n * pageMax c) ((ret @ [b]) @ pages_of rts) w2"
    by blast
  have pg: "pages_of (rt # rts) = b # pages_of rts"
    using pages_of_append [of "[rt]" rts] b by (simp add: pages_of_single)
  have mxeq: "mx - pageMax c - of_nat n * pageMax c = mx - of_nat (Suc n) * pageMax c"
    by (simp add: algebra_simps)
  show ?case
    apply (intro exI [where x = u2] exI [where x = pu2] exI [where x = "rt # rts"] exI [where x = w2])
    using p2 c1 c2 n2 g2 a2 s2 l1 l2 np pg mxeq by simp
qed


lemma sint_sub_pos:
  fixes a b :: goint
  assumes "0 < sint a" "0 < sint b"
  shows "sint (a - b) = sint a - sint b"
proof -
  have "sint a < 2 ^ 63" "sint b < 2 ^ 63" using sint_lt [of a] sint_lt [of b] by simp_all
  with assms have "- (2 ^ 63) \<le> sint a - sint b" "sint a - sint b < 2 ^ 63" by simp_all
  then show ?thesis
    by (simp add: sint_word_ariths signed_take_bit_int_eq_self)
qed

lemma ceiling_bounds:
  fixes m k :: int
  assumes "0 < k" "0 < m" "n = nat \<lceil>real_of_int m / real_of_int k\<rceil>"
  shows "m \<le> int n * k" "(int n - 1) * k < m"
proof -
  let ?q = "\<lceil>real_of_int m / real_of_int k\<rceil>"
  from assms(1,2) have "0 < real_of_int m / real_of_int k" by simp
  then have "0 < ?q" by (simp only: zero_less_ceiling)
  then have q0: "0 \<le> ?q" by linarith
  have n: "int n = ?q" unfolding assms(3) by (rule nat_0_le [OF q0])
  from assms(1) have "real_of_int m \<le> of_int ?q * real_of_int k"
    using ceiling_divide_upper [of "real_of_int k" "real_of_int m"] by simp
  then have "real_of_int m \<le> real_of_int (?q * k)" by simp
  then have "m \<le> ?q * k" by linarith
  then show "m \<le> int n * k" using n by simp
  from assms(1) have "(of_int ?q - 1) * real_of_int k < real_of_int m"
    using ceiling_divide_lower [of "real_of_int k" "real_of_int m"] by simp
  then have "real_of_int ((?q - 1) * k) < real_of_int m" by simp
  then have "(?q - 1) * k < m" by linarith
  then show "(int n - 1) * k < m" using n by simp
qed

lemma bounded_loop:
  assumes "0 < sint (pageMax c)"
    and "serves env (replicate n (next_page env)) (server w)"
    and "parseURL env uri = Inr pu"
    and "sint mx \<le> int n * sint (pageMax c)"
    and "n = 0 \<or> (int n - 1) * sint (pageMax c) < sint mx"
  shows "\<exists>rts w'. paging_loop env c uv False uri mx ret w = Some (Inr (ret @ pages_of rts, None), w') \<and>
           calls w' = calls w @ rts \<and> length rts = n \<and> length (pages_of rts) = n"
  using assms(2-)
proof (induction n arbitrary: uri pu mx ret w)
  case 0
  then have "\<not> 0 <s mx" by (simp add: word_sless_alt)
  then have "paging_loop env c uv False uri mx ret w = Some (Inr (ret, None), w)"
    by (simp add: loop_exit)
  then show ?case
    by (intro exI [where x = "[]"] exI [where x = w]) (simp add: pages_of_Nil)
next
  case (Suc n)
  have C: "0 < sint (pageMax c)" by (rule assms(1))
  from Suc.prems(4) have lo: "int n * sint (pageMax c) < sint mx" by simp
  from C have "0 \<le> int n * sint (pageMax c)" by simp
  with lo have pos: "0 < sint mx" by linarith
  then have cond: "False \<or> 0 <s mx" by (simp add: word_sless_alt)
  from Suc.prems(1) have srv: "serves env (next_page env # replicate n (next_page env)) (server w)"
    by simp
  from loop_next [OF cond Suc.prems(2) srv, where c = c and uv = uv and ret = ret]
  obtain u pu' rt b w1 where
    p1: "parseURL env u = Inr pu'" and c1: "calls w1 = calls w @ [rt]" and
    b: "page_of (snd rt) = Some b" and
    s1: "serves env (replicate n (next_page env)) (server w1)" and
    l1: "paging_loop env c uv False uri mx ret w =
         paging_loop env c uv False u (mx - pageMax c) (ret @ [b]) w1"
    by blast
  have sub: "sint (mx - pageMax c) = sint mx - sint (pageMax c)"
    by (rule sint_sub_pos [OF pos C])
  have up: "sint (mx - pageMax c) \<le> int n * sint (pageMax c)"
    using Suc.prems(3) by (simp add: sub algebra_simps)
  have low: "n = 0 \<or> (int n - 1) * sint (pageMax c) < sint (mx - pageMax c)"
    using lo by (simp add: sub algebra_simps)
  from Suc.IH [OF s1 p1 up low, where ret = "ret @ [b]"]
  obtain rts w2 where
    l2: "paging_loop env c uv False u (mx - pageMax c) (ret @ [b]) w1 =
         Some (Inr ((ret @ [b]) @ pages_of rts, None), w2)" and
    c2: "calls w2 = calls w1 @ rts" and n2: "length rts = n" and g2: "length (pages_of rts) = n"
    by blast
  have pg: "pages_of (rt # rts) = b # pages_of rts"
    using pages_of_append [of "[rt]" rts] b by (simp add: pages_of_single)
  show ?case
    apply (intro exI [where x = "rt # rts"] exI [where x = w2])
    using l1 l2 c1 c2 n2 g2 pg by simp
qed

text \<open>
  Claim C1. A bounded fetch with caller maximum \<open>M > 0\<close> and page-size ceiling
  \<open>C > 0\<close>, from a transport whose next \<open>ceil(M / C)\<close> answers are pages that each
  name a next page, returns without error after exactly \<open>ceil(M / C)\<close> round trips,
  with one page per round trip, whatever the pages contain: the budget goes down by
  \<open>C\<close> in every iteration.
\<close>

theorem bounded_fetch_round_trips:
  assumes "0 <s mx" and "0 <s pageMax c"
    and "parseURL env uri = Inr pu"
    and "n = nat \<lceil>real_of_int (sint mx) / real_of_int (sint (pageMax c))\<rceil>"
    and "serves env (replicate n (next_page env)) (server w)"
  shows "\<exists>pages rts w'. getRequestWithPaging env c uri uv mx w = Some (Inr (pages, None), w') \<and>
           calls w' = calls w @ rts \<and> length rts = n \<and>
           pages = pages_of rts \<and> length pages = n"
proof -
  from assms(1,2) have M: "0 < sint mx" and C: "0 < sint (pageMax c)"
    by (simp_all add: word_sless_alt)
  from M have "mx \<noteq> 0" by auto
  note bnd = ceiling_bounds [OF C M assms(4)]
  from bounded_loop [OF C assms(5) assms(3) bnd(1), where uv = uv and ret = "[]"] bnd(2)
  obtain rts w' where
    "paging_loop env c uv False uri mx [] w = Some (Inr ([] @ pages_of rts, None), w')"
    "calls w' = calls w @ rts" "length rts = n" "length (pages_of rts) = n"
    by blast
  with \<open>mx \<noteq> 0\<close> show ?thesis
    by (simp add: getRequestWithPaging_def)
qed




lemma Do_mock_env:
  "Do (mock_env script) req n =
     (if n < length script then script ! n else Inl (Errorf ''mock error''), Suc n)"
  by (simp add: mock_env_def)

lemma parseURL_mock_env: "parseURL (mock_env script) = mock_parse"
  by (simp add: mock_env_def)

lemma mock_next_page: "next_page (mock_env s) (mock_page ''{}'' [link_to ''http://x/rooms''])"
  by code_simp

lemma mock_serves_three: "serves (mock_env (replicate 3 (mock_page ''{}'' [link_to ''http://x/rooms'']))) (replicate 3 (next_page (mock_env (replicate 3 (mock_page ''{}'' [link_to ''http://x/rooms'']))))) 0"
  by (simp add: numeral_3_eq_3 Do_mock_env mock_next_page [of "[a, b, c]" for a b c])

theorem bounded_fetch_round_trips_witness:
  "0 <s (5::goint) \<and> 0 <s pageMax \<lparr>token = ''t'', pageMax = 2\<rparr> \<and>
   (\<exists>pages rts w'.
      getRequestWithPaging (mock_env (replicate 3 (mock_page ''{}'' [link_to ''http://x/rooms''])))
        \<lparr>token = ''t'', pageMax = 2\<rparr> ''http://x/rooms'' [] 5 start = Some (Inr (pages, None), w') \<and>
      calls w' = calls start @ rts \<and> length rts = 3 \<and> pages = pages_of rts \<and> length pages = 3)"
proof -
  let ?env = "mock_env (replicate 3 (mock_page ''{}'' [link_to ''http://x/rooms'']))"
  let ?c = "\<lparr>token = ''t'', pageMax = 2 :: goint\<rparr>"
  have a: "0 <s (5::goint)" by (simp add: word_sless_alt)
  have b: "0 <s pageMax ?c" by (simp add: word_sless_alt)
  have p: "parseURL ?env ''http://x/rooms'' = Inr \<lparr>Location = ''http://x/rooms'', Query = []\<rparr>"
    by (simp add: parseURL_mock_env mock_parse_def)
  have n: "3 = nat \<lceil>real_of_int (sint (5::goint)) / real_of_int (sint (pageMax ?c))\<rceil>" by simp
  have s: "serves ?env (replicate 3 (next_page ?env)) (server start)"
    by (simp add: mock_serves_three start_def)
  from bounded_fetch_round_trips [OF a b p n s, of "[]"] a b show ?thesis by blast
qed


lemma loop_continue:
  assumes cond: "all \<or> 0 <s mx"
    and parse: "parseURL env uri = Inr pu"
    and d: "Do env (paging_request c pu uv all mx) (server w) = (out, st')"
    and b: "page_of out = Some b"
    and u: "next_of out = Inr (Some u)"
  shows "paging_loop env c uv all uri mx ret w =
     paging_loop env c uv all u (mx - pageMax c) (ret @ [b])
       \<lparr>calls = calls w @ [(paging_request c pu uv all mx, out)], server = st'\<rparr>"
  apply (subst paging_loop.simps)
  using cond paging_body_sent [OF parse d, of ret] b u page_no_failure [OF b]
  by simp

lemma fails_after_pages:
  assumes budget: "all \<or> (\<forall>i\<le>j. 0 <s mx - of_nat i * pageMax c)"
    and parse: "parseURL env uri = Inr pu"
    and srv: "serves env (replicate j (next_page env) @ [failure]) (server w)"
  shows "\<exists>err rts w'. paging_loop env c uv all uri mx ret w = Some (Inr (ret @ pages_of rts, Some err), w') \<and>
           calls w' = calls w @ rts \<and> length rts = Suc j \<and> length (pages_of rts) = j \<and>
           failure_of (snd (last rts)) = Some err"
proof -
  from budget have b1: "all \<or> (\<forall>i<j. 0 <s mx - of_nat i * pageMax c)" by auto
  from loop_next_pages [OF srv parse b1, where uv = uv and ret = ret]
  obtain u pu' rts w1 where
    p1: "parseURL env u = Inr pu'" and c1: "calls w1 = calls w @ rts" and
    n1: "length rts = j" and g1: "length (pages_of rts) = j" and
    s1: "serves env [failure] (server w1)" and
    l1: "paging_loop env c uv all uri mx ret w =
         paging_loop env c uv all u (mx - of_nat j * pageMax c) (ret @ pages_of rts) w1"
    by blast
  define mx' where "mx' = mx - of_nat j * pageMax c"
  from budget have cond: "all \<or> 0 <s mx'" by (auto simp: mx'_def)
  define req where "req = paging_request c pu' uv all mx'"
  obtain out st' where d: "Do env req (server w1) = (out, st')" by (cases "Do env req (server w1)")
  from s1 d have "failure out" by (auto dest: spec [where x = req])
  then obtain err where e: "failure_of out = Some err" by (auto simp: failure_def)
  define w2 where "w2 = \<lparr>calls = calls w1 @ [(req, out)], server = st'\<rparr>"
  have l2: "paging_loop env c uv all u mx' (ret @ pages_of rts) w1 =
            Some (Inr (ret @ pages_of rts, Some err), w2)"
    using loop_stop [OF cond p1 d [unfolded req_def], where ret = "ret @ pages_of rts"] e
    by (simp add: w2_def req_def)
  have pg: "pages_of (rts @ [(req, out)]) = pages_of rts"
    using failure_no_page [OF e] by (simp add: pages_of_snoc)
  show ?thesis
    apply (intro exI [where x = err] exI [where x = "rts @ [(req, out)]"] exI [where x = w2])
    using l1 l2 c1 n1 g1 pg e by (simp add: mx'_def w2_def)
qed

lemma fails_on_bad_link:
  assumes budget: "all \<or> (\<forall>i\<le>Suc j. 0 <s mx - of_nat i * pageMax c)"
    and parse: "parseURL env uri = Inr pu"
    and srv: "serves env (replicate j (next_page env) @ [bad_next_page env]) (server w)"
  shows "\<exists>err rts w'. paging_loop env c uv all uri mx ret w = Some (Inr (ret @ pages_of rts, Some err), w') \<and>
           calls w' = calls w @ rts \<and> length rts = Suc j \<and> length (pages_of rts) = Suc j \<and>
           (\<exists>u. next_of (snd (last rts)) = Inr (Some u) \<and> parseURL env u = Inl err)"
proof -
  from budget have b1: "all \<or> (\<forall>i<j. 0 <s mx - of_nat i * pageMax c)" by auto
  from loop_next_pages [OF srv parse b1, where uv = uv and ret = ret]
  obtain u pu' rts w1 where
    p1: "parseURL env u = Inr pu'" and c1: "calls w1 = calls w @ rts" and
    n1: "length rts = j" and g1: "length (pages_of rts) = j" and
    s1: "serves env [bad_next_page env] (server w1)" and
    l1: "paging_loop env c uv all uri mx ret w =
         paging_loop env c uv all u (mx - of_nat j * pageMax c) (ret @ pages_of rts) w1"
    by blast
  define mx' where "mx' = mx - of_nat j * pageMax c"
  from budget have cond: "all \<or> 0 <s mx'" by (auto simp: mx'_def)
  have mx'': "mx' - pageMax c = mx - of_nat (Suc j) * pageMax c"
    by (simp add: mx'_def algebra_simps)
  from budget have "all \<or> 0 <s mx - of_nat (Suc j) * pageMax c" by blast
  then have cond2: "all \<or> 0 <s mx' - pageMax c" by (simp only: mx'')
  define req where "req = paging_request c pu' uv all mx'"
  obtain out st' where d: "Do env req (server w1) = (out, st')" by (cases "Do env req (server w1)")
  from s1 d have bn: "bad_next_page env out" by (auto dest: spec [where x = req])
  then obtain b where b: "page_of out = Some b" by (auto simp: bad_next_page_def)
  from bn obtain u2 where u2: "next_of out = Inr (Some u2)" and "isl (parseURL env u2)"
    by (auto simp: bad_next_page_def split: sum.splits option.splits)
  then obtain err where e: "parseURL env u2 = Inl err" by (cases "parseURL env u2") auto
  define w2 where "w2 = \<lparr>calls = calls w1 @ [(req, out)], server = st'\<rparr>"
  have l2: "paging_loop env c uv all u mx' (ret @ pages_of rts) w1 =
            paging_loop env c uv all u2 (mx' - pageMax c) ((ret @ pages_of rts) @ [b]) w2"
    using loop_continue [OF cond p1 d [unfolded req_def] b u2] by (simp add: w2_def req_def)
  have l3: "paging_loop env c uv all u2 (mx' - pageMax c) ((ret @ pages_of rts) @ [b]) w2 =
            Some (Inr ((ret @ pages_of rts) @ [b], Some err), w2)"
    by (rule loop_parse_error [OF cond2 e])
  have pg: "pages_of (rts @ [(req, out)]) = pages_of rts @ [b]"
    using b by (simp add: pages_of_snoc)
  show ?thesis
    apply (intro exI [where x = err] exI [where x = "rts @ [(req, out)]"] exI [where x = w2])
    using l1 l2 l3 c1 n1 g1 pg u2 e by (simp add: mx'_def w2_def)
qed

text \<open>
  Claim C4. When the first \<open>j\<close> round trips of a paginated fetch succeed and the next
  one fails, the fetch stops and returns exactly the \<open>j\<close> pages got so far, in the
  order of the round trips, with an error. The failure is an answer that is a transport
  error, a body that cannot be read or a status other than 200 and 204, or a URL that
  does not parse: the \<open>uri\<close> of the call when \<open>j = 0\<close>, the next link of the last
  page otherwise. The first hypothesis says that the budget lets the loop start its
  iteration \<open>j + 1\<close>. With \<open>j = 0\<close> the returned collection is empty.
\<close>

theorem partial_pages_and_error_on_failure:
  assumes "mx = 0 \<or> (\<forall>i\<le>j. 0 <s mx - of_nat i * pageMax c)"
    and "(\<exists>pu. parseURL env uri = Inr pu) \<and> serves env (replicate j (next_page env) @ [failure]) (server w)
       \<or> j = 0 \<and> isl (parseURL env uri)
       \<or> (\<exists>pu. parseURL env uri = Inr pu) \<and> 0 < j \<and>
           serves env (replicate (j - 1) (next_page env) @ [bad_next_page env]) (server w)"
  shows "\<exists>pages err rts w'.
           getRequestWithPaging env c uri uv mx w = Some (Inr (pages, Some err), w') \<and>
           calls w' = calls w @ rts \<and> pages = pages_of rts \<and> length pages = j \<and>
           j \<le> length rts \<and> length rts \<le> Suc j \<and> (j = 0 \<longrightarrow> pages = [])"
proof -
  let ?all = "mx = 0"
  from assms(1) have budget: "?all \<or> (\<forall>i\<le>j. 0 <s mx - of_nat i * pageMax c)" .
  from assms(2) consider
    (answer) pu where "parseURL env uri = Inr pu"
      "serves env (replicate j (next_page env) @ [failure]) (server w)"
    | (first) "j = 0" "isl (parseURL env uri)"
    | (link) pu where "parseURL env uri = Inr pu" "0 < j"
      "serves env (replicate (j - 1) (next_page env) @ [bad_next_page env]) (server w)"
    by blast
  then show ?thesis
  proof cases
    case answer
    from fails_after_pages [OF budget answer(1) answer(2), where uv = uv and ret = "[]"]
    obtain err rts w' where
      "paging_loop env c uv ?all uri mx [] w = Some (Inr ([] @ pages_of rts, Some err), w')"
      "calls w' = calls w @ rts" "length rts = Suc j" "length (pages_of rts) = j"
      by blast
    then show ?thesis
      by (intro exI [where x = "pages_of rts"] exI [where x = err] exI [where x = rts]
          exI [where x = w']) (auto simp: getRequestWithPaging_def)
  next
    case first
    then obtain err where e: "parseURL env uri = Inl err" by (cases "parseURL env uri") auto
    from budget first(1) have cond: "?all \<or> 0 <s mx" by auto
    have "paging_loop env c uv ?all uri mx [] w = Some (Inr ([], Some err), w)"
      by (rule loop_parse_error [OF cond e])
    with first(1) show ?thesis
      by (intro exI [where x = "[]"] exI [where x = err] exI [where x = "[]"] exI [where x = w])
        (simp add: getRequestWithPaging_def pages_of_Nil)
  next
    case link
    then obtain j' where j': "j = Suc j'" by (cases j) auto
    from budget j' have b: "?all \<or> (\<forall>i\<le>Suc j'. 0 <s mx - of_nat i * pageMax c)" by simp
    from link(3) j' have s: "serves env (replicate j' (next_page env) @ [bad_next_page env]) (server w)"
      by simp
    from fails_on_bad_link [OF b link(1) s, where uv = uv and ret = "[]"]
    obtain err rts w' where
      "paging_loop env c uv ?all uri mx [] w = Some (Inr ([] @ pages_of rts, Some err), w')"
      "calls w' = calls w @ rts" "length rts = Suc j'" "length (pages_of rts) = Suc j'"
      by blast
    with j' show ?thesis
      by (intro exI [where x = "pages_of rts"] exI [where x = err] exI [where x = rts]
          exI [where x = w']) (simp add: getRequestWithPaging_def)
  qed
qed

theorem partial_pages_and_error_on_failure_witness:
  "(\<exists>pages err rts w'.
      getRequestWithPaging
        (mock_env [mock_page ''p1'' [link_to ''http://x/rooms''],
                   mock_page ''p2'' [link_to ''http://x/rooms''], Inl (Errorf ''mock error'')])
        \<lparr>token = ''t'', pageMax = 50\<rparr> ''http://x/rooms'' [] 0 start = Some (Inr (pages, Some err), w') \<and>
      calls w' = calls start @ rts \<and> pages = pages_of rts \<and> length pages = 2 \<and> length rts \<le> 3) \<and>
   fst (the (getRequestWithPaging
        (mock_env [mock_page ''p1'' [link_to ''http://x/rooms''],
                   mock_page ''p2'' [link_to ''http://x/rooms''], Inl (Errorf ''mock error'')])
        \<lparr>token = ''t'', pageMax = 50\<rparr> ''http://x/rooms'' [] 0 start)) =
     Inr ([''p1'', ''p2''], Some (Errorf ''mock error''))"
proof -
  let ?l = "link_to ''http://x/rooms''"
  let ?env = "mock_env [mock_page ''p1'' [?l], mock_page ''p2'' [?l], Inl (Errorf ''mock error'')]"
  let ?c = "\<lparr>token = ''t'', pageMax = 50 :: goint\<rparr>"
  have p: "\<exists>pu. parseURL ?env ''http://x/rooms'' = Inr pu"
    by (simp add: parseURL_mock_env mock_parse_def)
  have n1: "next_page ?env (mock_page ''p1'' [?l])" by code_simp
  have n2: "next_page ?env (mock_page ''p2'' [?l])" by code_simp
  have n3: "failure (Inl (Errorf ''mock error''))" by code_simp
  have s: "serves ?env (replicate 2 (next_page ?env) @ [failure]) (server start)"
    by (simp add: numeral_2_eq_2 Do_mock_env start_def n1 n2 n3)
  have b: "(0::goint) = 0 \<or> (\<forall>i\<le>2. 0 <s (0::goint) - of_nat i * pageMax ?c)" by simp
  have e: "fst (the (getRequestWithPaging ?env ?c ''http://x/rooms'' [] 0 start)) =
     Inr ([''p1'', ''p2''], Some (Errorf ''mock error''))"
    by code_simp
  from partial_pages_and_error_on_failure [OF b, of ?env "''http://x/rooms''" start "[]"] p s
  have "\<exists>pages err rts w'.
      getRequestWithPaging ?env ?c ''http://x/rooms'' [] 0 start = Some (Inr (pages, Some err), w') \<and>
      calls w' = calls start @ rts \<and> pages = pages_of rts \<and> length pages = 2 \<and> length rts \<le> 3"
    by (simp add: numeral_3_eq_3) blast
  with e show ?thesis by blast
qed

end
